theory Spec2Isabelle
  imports Complex_Main
begin

section \<open>JavaScript values\<close>

text \<open>
  The two log-type dashboard pages (\<^verbatim>\<open>ai_opsv1/static/js/log-types.js\<close>, called the
  Bootstrap page below, and its Tailwind variant) handle JSON data: the API response,
  the cached snapshots and the records kept in \<^verbatim>\<open>localStorage\<close>. A value is one of
  the JSON shapes, or \<^verbatim>\<open>undefined\<close>. Numbers are the integers (counts and
  millisecond time stamps); an object is the list of its own properties.
\<close>

datatype jsval =
    JUndefined
  | JNull
  | JBool bool
  | JNum int
  | JStr string
  | JArr "jsval list"
  | JObj "(string \<times> jsval) list"

text \<open>What the code can throw, or what a rejected promise carries.\<close>

datatype js_error =
    TypeError
  | SyntaxError
  | StorageError
  | NetworkError
  | HttpError
  | FormatError

text \<open>Sequencing of fallible steps: the first error leaves the \<^verbatim>\<open>try\<close> block.\<close>

definition on_ok :: "js_error + 'a \<Rightarrow> ('a \<Rightarrow> js_error + 'b) \<Rightarrow> js_error + 'b" where
  "on_ok m f = (case m of Inl e \<Rightarrow> Inl e | Inr v \<Rightarrow> f v)"

text \<open>\<^verbatim>\<open>ToBoolean\<close>: what \<^verbatim>\<open>!x\<close>, \<^verbatim>\<open>if (x)\<close> and \<^verbatim>\<open>x || y\<close> look at.\<close>

fun truthy :: "jsval \<Rightarrow> bool" where
  "truthy JUndefined = False"
| "truthy JNull = False"
| "truthy (JBool b) = b"
| "truthy (JNum n) = (n \<noteq> 0)"
| "truthy (JStr s) = (s \<noteq> [])"
| "truthy (JArr xs) = True"
| "truthy (JObj kvs) = True"

definition js_or :: "jsval \<Rightarrow> jsval \<Rightarrow> jsval" where
  "js_or a b = (if truthy a then a else b)"

text \<open>
  A string is kept as the bytes of its UTF-8 encoding. Its \<^verbatim>\<open>length\<close> counts
  UTF-16 code units: one for each character of one to three bytes, two for a character
  of four bytes, so a continuation byte counts nothing.
\<close>

definition utf16_units :: "string \<Rightarrow> nat" where
  "utf16_units s =
     sum_list (map (\<lambda>c. let b = (of_char c :: nat)
                          in if b < 128 then 1 else if b < 192 then 0 else if b < 240 then 1 else 2) s)"

text \<open>
  Property read \<^verbatim>\<open>v.name\<close>. On \<^verbatim>\<open>null\<close> and \<^verbatim>\<open>undefined\<close> it throws a
  TypeError. The code reads data fields and \<^verbatim>\<open>length\<close> only, so inherited
  properties and array indices are not looked at.
\<close>

fun get_prop :: "jsval \<Rightarrow> string \<Rightarrow> js_error + jsval" where
  "get_prop JUndefined k = Inl TypeError"
| "get_prop JNull k = Inl TypeError"
| "get_prop (JObj kvs) k = Inr (case map_of kvs k of None \<Rightarrow> JUndefined | Some v \<Rightarrow> v)"
| "get_prop (JArr xs) k = Inr (if k = ''length'' then JNum (int (length xs)) else JUndefined)"
| "get_prop (JStr s) k = Inr (if k = ''length'' then JNum (int (utf16_units s)) else JUndefined)"
| "get_prop (JBool b) k = Inr JUndefined"
| "get_prop (JNum n) k = Inr JUndefined"

text \<open>
  \<^verbatim>\<open>ToNumber\<close>, with \<open>None\<close> for NaN. A string, an array or an object converts
  through its text; the records the pages write carry numeric time stamps, and for the
  other shapes the model takes the conversion of a non-numeric text, NaN.
\<close>

fun toNumber :: "jsval \<Rightarrow> int option" where
  "toNumber (JNum n) = Some n"
| "toNumber JNull = Some 0"
| "toNumber (JBool b) = Some (if b then 1 else 0)"
| "toNumber JUndefined = None"
| "toNumber (JStr s) = None"
| "toNumber (JArr xs) = None"
| "toNumber (JObj kvs) = None"

text \<open>\<^verbatim>\<open>Date.now() - ts < ttl\<close>: a comparison with NaN is false.\<close>

definition age_below :: "int \<Rightarrow> jsval \<Rightarrow> int \<Rightarrow> bool" where
  "age_below now ts ttl = (case toNumber ts of None \<Rightarrow> False | Some t \<Rightarrow> now - t < ttl)"

text \<open>
  What \<^verbatim>\<open>JSON.parse(JSON.stringify(v))\<close> gives back: a property whose value is
  \<^verbatim>\<open>undefined\<close> is dropped, an \<^verbatim>\<open>undefined\<close> array element becomes
  \<^verbatim>\<open>null\<close>, everything else is kept.
\<close>

fun jsonify :: "jsval \<Rightarrow> jsval"
  and jsonify_elems :: "jsval list \<Rightarrow> jsval list"
  and jsonify_props :: "(string \<times> jsval) list \<Rightarrow> (string \<times> jsval) list" where
  "jsonify (JArr xs) = JArr (jsonify_elems xs)"
| "jsonify (JObj kvs) = JObj (jsonify_props kvs)"
| "jsonify JUndefined = JUndefined"
| "jsonify JNull = JNull"
| "jsonify (JBool b) = JBool b"
| "jsonify (JNum n) = JNum n"
| "jsonify (JStr s) = JStr s"
| "jsonify_elems [] = []"
| "jsonify_elems (x # xs) = (if x = JUndefined then JNull else jsonify x) # jsonify_elems xs"
| "jsonify_props [] = []"
| "jsonify_props ((k, v) # kvs) =
     (if v = JUndefined then jsonify_props kvs else (k, jsonify v) # jsonify_props kvs)"

section \<open>The browser's localStorage\<close>

text \<open>
  A stored string is represented by what the pages observe of it: whether it is the
  empty string, and what \<^verbatim>\<open>JSON.parse\<close> makes of it. The store can refuse every
  access (storage disabled) and can refuse writes (quota exceeded); both throw.
\<close>

datatype ls_item = Raw_empty | Raw_invalid | Raw_json jsval

record storage =
  items :: "string \<rightharpoonup> ls_item"
  blocked :: bool
  full :: bool

definition localStorage_getItem :: "storage \<Rightarrow> string \<Rightarrow> js_error + ls_item option" where
  "localStorage_getItem st key = (if blocked st then Inl StorageError else Inr (items st key))"

definition localStorage_setItem :: "storage \<Rightarrow> string \<Rightarrow> ls_item \<Rightarrow> js_error + storage" where
  "localStorage_setItem st key raw =
     (if blocked st \<or> full st then Inl StorageError
      else Inr (st\<lparr>items := (items st)(key \<mapsto> raw)\<rparr>))"

fun JSON_parse :: "ls_item \<Rightarrow> js_error + jsval" where
  "JSON_parse Raw_empty = Inl SyntaxError"
| "JSON_parse Raw_invalid = Inl SyntaxError"
| "JSON_parse (Raw_json v) = Inr v"

definition JSON_stringify :: "jsval \<Rightarrow> ls_item" where
  "JSON_stringify v = Raw_json (jsonify v)"

section \<open>The dashboard and its page\<close>

text \<open>
  \<^verbatim>\<open>cacheTimeout\<close>, \<^verbatim>\<open>minRequestInterval\<close> and \<^verbatim>\<open>localCacheTTL\<close> are set by
  the constructor and never assigned again.
\<close>

definition cacheTimeout :: int where
  "cacheTimeout = 30000"

definition minRequestInterval :: int where
  "minRequestInterval = 5000"

definition localCacheTTL :: int where
  "localCacheTTL = 60000"

text \<open>An entry of the in-memory cache: \<^verbatim>\<open>{ data, timestamp }\<close>.\<close>

record centry =
  c_data :: jsval
  c_timestamp :: int

text \<open>
  The fields of \<^verbatim>\<open>LogTypesDashboard\<close> together with the parts of the page it acts
  on. \<open>cache\<close> is the \<^verbatim>\<open>Map\<close> of the constructor; nothing but a \<^verbatim>\<open>Map\<close> is
  ever assigned to that field, so the branches of the Bootstrap page that re-create a
  missing cache are never entered and have no counterpart here.
  \<open>timeRange\<close> is the value of the \<^verbatim>\<open>#timeRange\<close> control (\<open>None\<close> when the
  element is missing), \<open>alert_host\<close> and \<open>cards_host\<close> say whether the elements
  that \<^verbatim>\<open>showError\<close> writes to exist, \<open>alerts\<close> are the error alerts inserted
  so far (newest first), \<open>cards_banner\<close> is the error banner that the Tailwind page
  puts into \<^verbatim>\<open>#summaryCards\<close>, \<open>timers\<close> counts the pending
  \<^verbatim>\<open>setTimeout(() => this.refreshData(), 0)\<close> callbacks and \<open>requests\<close> the
  HTTP requests sent.
\<close>

record dashboard =
  cache :: "string \<rightharpoonup> centry"
  lastRequestTime :: int
  data :: jsval
  localStorage :: storage
  timeRange :: "string option"
  alert_host :: bool
  cards_host :: bool
  alerts :: "js_error list"
  cards_banner :: "js_error option"
  timers :: nat
  requests :: nat

text \<open>
  The constructor's field values, on a page given by its store, its time-range control
  and the presence of the two host elements. (The constructor then calls
  \<^verbatim>\<open>init()\<close>, which loads and renders.)
\<close>

definition new_dashboard :: "storage \<Rightarrow> string option \<Rightarrow> bool \<Rightarrow> bool \<Rightarrow> dashboard" where
  "new_dashboard st tr ah ch =
     \<lparr>cache = Map.empty, lastRequestTime = 0, data = JNull, localStorage = st,
      timeRange = tr, alert_host = ah, cards_host = ch, alerts = [], cards_banner = None,
      timers = 0, requests = 0\<rparr>"

section \<open>The in-memory cache\<close>

text \<open>
  \<^verbatim>\<open>getCachedData(key)\<close> and \<^verbatim>\<open>setCachedData(key, data)\<close>; \<open>now\<close> is what
  \<^verbatim>\<open>Date.now()\<close> returns during the call. An absent result is \<^verbatim>\<open>null\<close>. The
  pages build a new snapshot object for every load and never change one afterwards, so
  an entry holds the snapshot as a value.
\<close>

definition getCachedData :: "int \<Rightarrow> string \<Rightarrow> dashboard \<Rightarrow> jsval" where
  "getCachedData now key s =
     (case cache s key of
        None \<Rightarrow> JNull
      | Some cached \<Rightarrow> if now - c_timestamp cached < cacheTimeout then c_data cached else JNull)"

definition setCachedData :: "int \<Rightarrow> string \<Rightarrow> jsval \<Rightarrow> dashboard \<Rightarrow> dashboard" where
  "setCachedData now key d s =
     s\<lparr>cache := (cache s)(key \<mapsto> \<lparr>c_data = d, c_timestamp = now\<rparr>)\<rparr>"

section \<open>The persistent cache\<close>

text \<open>
  \<^verbatim>\<open>getLocalCachedData(key, allowStale)\<close> of the Bootstrap page. The body is the
  \<^verbatim>\<open>try\<close> block; the \<^verbatim>\<open>catch\<close> turns every error into \<^verbatim>\<open>null\<close>.
\<close>

definition getLocalCachedData_try :: "int \<Rightarrow> string \<Rightarrow> bool \<Rightarrow> storage \<Rightarrow> js_error + jsval" where
  "getLocalCachedData_try now key allowStale st =
     on_ok (localStorage_getItem st key) (\<lambda>raw.
       case raw of
         None \<Rightarrow> Inr JNull
       | Some Raw_empty \<Rightarrow> Inr JNull
       | Some r \<Rightarrow>
           on_ok (JSON_parse r) (\<lambda>obj.
             if \<not> truthy obj then Inr JNull
             else on_ok (get_prop obj ''timestamp'') (\<lambda>ts.
               if \<not> truthy ts then Inr JNull
               else on_ok (get_prop obj ''data'') (\<lambda>d.
                 if \<not> truthy d then Inr JNull
                 else if age_below now ts localCacheTTL \<or> allowStale then Inr d
                 else Inr JNull))))"

definition getLocalCachedData :: "int \<Rightarrow> string \<Rightarrow> bool \<Rightarrow> storage \<Rightarrow> jsval" where
  "getLocalCachedData now key allowStale st =
     (case getLocalCachedData_try now key allowStale st of Inl e \<Rightarrow> JNull | Inr v \<Rightarrow> v)"

text \<open>
  The Tailwind page's \<^verbatim>\<open>getLocalCachedData\<close>: no check of the parsed record; with
  \<^verbatim>\<open>allowStale\<close> the time stamp is not read at all.
\<close>

definition getLocalCachedData_tw_try :: "int \<Rightarrow> string \<Rightarrow> bool \<Rightarrow> storage \<Rightarrow> js_error + jsval" where
  "getLocalCachedData_tw_try now key allowStale st =
     on_ok (localStorage_getItem st key) (\<lambda>cached.
       case cached of
         None \<Rightarrow> Inr JNull
       | Some Raw_empty \<Rightarrow> Inr JNull
       | Some r \<Rightarrow>
           on_ok (JSON_parse r) (\<lambda>parsed.
             if allowStale then get_prop parsed ''data''
             else on_ok (get_prop parsed ''timestamp'') (\<lambda>ts.
               if age_below now ts localCacheTTL then get_prop parsed ''data'' else Inr JNull)))"

definition getLocalCachedData_tw :: "int \<Rightarrow> string \<Rightarrow> bool \<Rightarrow> storage \<Rightarrow> jsval" where
  "getLocalCachedData_tw now key allowStale st =
     (case getLocalCachedData_tw_try now key allowStale st of Inl e \<Rightarrow> JNull | Inr v \<Rightarrow> v)"

text \<open>
  \<^verbatim>\<open>setLocalCachedData(key, data)\<close>, the same on both pages: a failed write is
  caught and leaves the store as it was.
\<close>

definition setLocalCachedData_try :: "int \<Rightarrow> string \<Rightarrow> jsval \<Rightarrow> storage \<Rightarrow> js_error + storage" where
  "setLocalCachedData_try now key d st =
     localStorage_setItem st key (JSON_stringify (JObj [(''data'', d), (''timestamp'', JNum now)]))"

definition setLocalCachedData :: "int \<Rightarrow> string \<Rightarrow> jsval \<Rightarrow> storage \<Rightarrow> storage" where
  "setLocalCachedData now key d st =
     (case setLocalCachedData_try now key d st of Inl e \<Rightarrow> st | Inr st' \<Rightarrow> st')"

section \<open>Loading data: the Bootstrap page\<close>

text \<open>
  \<^verbatim>\<open>getCacheKey()\<close>: the prefix and the value of the time-range control, \<^verbatim>\<open>'1'\<close>
  when the element or its value is missing.
\<close>

definition getCacheKey :: "dashboard \<Rightarrow> string" where
  "getCacheKey s =
     ''log_analysis_'' @ (case timeRange s of None \<Rightarrow> ''1'' | Some v \<Rightarrow> if v = [] then ''1'' else v)"

text \<open>
  What the HTTP request comes back with: the promise is rejected (no connection), or
  there is a response with its \<^verbatim>\<open>ok\<close> flag (a 2xx status) and a body, which is
  JSON or a text that does not parse.
\<close>

datatype body = Unparsable string | Parsed jsval

datatype fetch_result = Rejected | Response bool body

text \<open>
  The steps of \<^verbatim>\<open>loadData\<close> between the request and the normalisation:
  \<^verbatim>\<open>await fetch(...)\<close>, the test of \<^verbatim>\<open>response.ok\<close>,
  \<^verbatim>\<open>await response.json()\<close> and the check that the data is a non-null object
  (\<^verbatim>\<open>typeof\<close> is \<^verbatim>\<open>'object'\<close> for objects and arrays).
\<close>

fun is_object :: "jsval \<Rightarrow> bool" where
  "is_object (JObj kvs) = True"
| "is_object (JArr xs) = True"
| "is_object JNull = True"
| "is_object v = False"

fun received :: "fetch_result \<Rightarrow> js_error + jsval" where
  "received Rejected = Inl NetworkError"
| "received (Response ok b) =
     (if \<not> ok then Inl HttpError
      else case b of
             Unparsable txt \<Rightarrow> Inl SyntaxError
           | Parsed d \<Rightarrow> if \<not> truthy d \<or> \<not> is_object d then Inl FormatError else Inr d)"

text \<open>
  The default texts of the snapshot are Chinese; they are kept as the bytes of their
  UTF-8 encoding (\<^verbatim>\<open>time_range\<close>: "most recent 1 minute").
\<close>

definition default_time_range :: string where
  "default_time_range =
     [CHR 0xE6, CHR 0x9C, CHR 0x80, CHR 0xE8, CHR 0xBF, CHR 0x91, CHR ''1'',
      CHR 0xE5, CHR 0x88, CHR 0x86, CHR 0xE9, CHR 0x92, CHR 0x9F]"

text \<open>
  "Make sure the necessary fields exist": each field of the snapshot is
  \<^verbatim>\<open>this.data.field || default\<close>, in the order of the object literal.
\<close>

definition field_defaults :: "(string \<times> jsval) list" where
  "field_defaults =
     [(''total_logs'', JNum 0),
      (''cleaned_logs_count'', JNum 0),
      (''time_range'', JStr default_time_range),
      (''processing_status'', JStr ''unknown''),
      (''business_modules'', JObj []),
      (''error_categories'', JObj []),
      (''error_types'', JObj []),
      (''severity_distribution'', JObj []),
      (''recent_errors'', JArr []),
      (''cleaning_summary'', JObj [])]"

fun fill_fields :: "jsval \<Rightarrow> (string \<times> jsval) list \<Rightarrow> js_error + (string \<times> jsval) list" where
  "fill_fields raw [] = Inr []"
| "fill_fields raw ((k, dflt) # rest) =
     on_ok (get_prop raw k) (\<lambda>v.
       on_ok (fill_fields raw rest) (\<lambda>fs. Inr ((k, js_or v dflt) # fs)))"

definition ensure_fields :: "jsval \<Rightarrow> js_error + jsval" where
  "ensure_fields raw = on_ok (fill_fields raw field_defaults) (\<lambda>fs. Inr (JObj fs))"

text \<open>The snapshot that the \<^verbatim>\<open>catch\<close> branch sets when nothing else is left.\<close>

definition default_snapshot :: jsval where
  "default_snapshot =
     JObj [(''total_logs'', JNum 0),
           (''cleaned_logs_count'', JNum 0),
           (''time_range'', JStr default_time_range),
           (''processing_status'', JStr ''error''),
           (''business_modules'', JObj []),
           (''error_categories'', JObj []),
           (''error_types'', JObj []),
           (''severity_distribution'', JObj []),
           (''recent_errors'', JArr []),
           (''cleaning_summary'', JObj [])]"

text \<open>
  \<^verbatim>\<open>printCleaningSummary()\<close> writes to the console only, but it runs inside the
  \<^verbatim>\<open>try\<close> block and can throw: for every entry of a non-empty
  \<^verbatim>\<open>business_modules\<close> it reads \<^verbatim>\<open>info.count\<close>, a TypeError when \<^verbatim>\<open>info\<close> is
  \<^verbatim>\<open>null\<close>. The other lines read properties of values that are not null and format
  them, which does not throw. \<open>own_values\<close> are the values that
  \<^verbatim>\<open>Object.entries\<close> lists (for a string: its characters).
\<close>

fun own_values :: "jsval \<Rightarrow> jsval list" where
  "own_values (JObj kvs) = map snd (filter (\<lambda>(k, v). map_of kvs k = Some v) kvs)"
| "own_values (JArr xs) = xs"
| "own_values (JStr s) = map (\<lambda>c. JStr [c]) s"
| "own_values v = []"

fun read_counts :: "jsval list \<Rightarrow> js_error + unit" where
  "read_counts [] = Inr ()"
| "read_counts (info # rest) = on_ok (get_prop info ''count'') (\<lambda>c. read_counts rest)"

definition printCleaningSummary :: "jsval \<Rightarrow> js_error + unit" where
  "printCleaningSummary d =
     (if \<not> truthy d then Inr ()
      else on_ok (get_prop d ''cleaning_summary'') (\<lambda>summary.
        if \<not> truthy summary then Inr ()
        else on_ok (get_prop d ''business_modules'') (\<lambda>bm.
          if truthy bm \<and> own_values bm \<noteq> [] then read_counts (own_values bm) else Inr ())))"

text \<open>
  \<^verbatim>\<open>showError(message)\<close> of the Bootstrap page inserts an alert at the top of the
  \<^verbatim>\<open>.container-fluid\<close> element, if there is one. The alert is represented by the
  error whose message it shows.
\<close>

definition showError :: "js_error \<Rightarrow> dashboard \<Rightarrow> dashboard" where
  "showError e s = (if alert_host s then s\<lparr>alerts := e # alerts s\<rparr> else s)"

text \<open>
  \<^verbatim>\<open>loadData()\<close> is an \<^verbatim>\<open>async\<close> function: it runs up to its first
  \<^verbatim>\<open>await\<close>, the HTTP request, and is resumed when the response is there; other
  callbacks can run in between. \<open>loadData_begin\<close> is the part before the request;
  its calls of \<^verbatim>\<open>Date.now()\<close> are taken to return the one reading \<open>t\<close>. It ends the call (\<open>Finished\<close>), or it has sent the request and
  waits (\<open>Awaiting\<close>, with the local variables \<^verbatim>\<open>now\<close> and \<^verbatim>\<open>cacheKey\<close> that
  the rest of the body uses). Nothing in this part throws: the two cache reads catch
  their own errors.
\<close>

datatype load_step = Finished dashboard | Awaiting dashboard int string

definition loadData_begin :: "int \<Rightarrow> dashboard \<Rightarrow> load_step" where
  "loadData_begin t s =
     (let localKey = getCacheKey s;
          localCached = getLocalCachedData t localKey False (localStorage s)
      in if truthy localCached
         then Finished (s\<lparr>data := localCached, timers := Suc (timers s)\<rparr>)
         else
           let cacheKey = getCacheKey s;
               cachedData = getCachedData t cacheKey s
           in if truthy cachedData then Finished (s\<lparr>data := cachedData\<rparr>)
              else
                let now = t
                in if now - lastRequestTime s < minRequestInterval then Finished s
                   else Awaiting (s\<lparr>requests := Suc (requests s)\<rparr>) now cacheKey)"

text \<open>
  The rest of the \<^verbatim>\<open>try\<close> block, resumed at clock reading \<open>t\<close> with the outcome
  \<open>r\<close> of the request: the snapshot goes into \<^verbatim>\<open>this.data\<close> and into both
  caches, and \<^verbatim>\<open>lastRequestTime\<close> becomes the \<^verbatim>\<open>now\<close> read before the request.
\<close>

definition loadData_try :: "int \<Rightarrow> int \<Rightarrow> string \<Rightarrow> fetch_result \<Rightarrow> dashboard \<Rightarrow> js_error + dashboard" where
  "loadData_try t now cacheKey r s =
     on_ok (received r) (\<lambda>raw.
       on_ok (ensure_fields raw) (\<lambda>d.
         on_ok (printCleaningSummary d) (\<lambda>u.
           Inr ((setCachedData t cacheKey d (s\<lparr>data := d\<rparr>))
                  \<lparr>lastRequestTime := now,
                   localStorage := setLocalCachedData t cacheKey d (localStorage s)\<rparr>))))"

text \<open>The \<^verbatim>\<open>catch\<close> branch: the persistent cache, stale or not, else the default.\<close>

definition loadData_catch :: "int \<Rightarrow> js_error \<Rightarrow> dashboard \<Rightarrow> dashboard" where
  "loadData_catch t e s =
     (let fallback = getLocalCachedData t (getCacheKey s) True (localStorage s)
      in if truthy fallback then s\<lparr>data := fallback\<rparr>
         else (showError e s)\<lparr>data := default_snapshot\<rparr>)"

definition loadData_resume :: "int \<Rightarrow> int \<Rightarrow> string \<Rightarrow> fetch_result \<Rightarrow> dashboard \<Rightarrow> dashboard" where
  "loadData_resume t now cacheKey r s =
     (case loadData_try t now cacheKey r s of Inl e \<Rightarrow> loadData_catch t e s | Inr s' \<Rightarrow> s')"

text \<open>
  A whole call with nothing running in between: started at \<open>t\<close>, and if a request is
  sent, its outcome \<open>r\<close> arrives at \<open>t'\<close>.
\<close>

definition loadData :: "int \<Rightarrow> int \<Rightarrow> fetch_result \<Rightarrow> dashboard \<Rightarrow> dashboard" where
  "loadData t t' r s =
     (case loadData_begin t s of
        Finished s' \<Rightarrow> s'
      | Awaiting s' now cacheKey \<Rightarrow> loadData_resume t' now cacheKey r s')"

text \<open>
  \<^verbatim>\<open>refreshData()\<close>, the handler of the refresh button, of a change of the time
  range, of the auto-refresh interval and of the timer that \<^verbatim>\<open>loadData\<close> sets: it
  deletes the in-memory entry of the current key and loads. The rendering that follows
  changes none of the fields modelled here.
\<close>

definition refreshData_begin :: "int \<Rightarrow> dashboard \<Rightarrow> load_step" where
  "refreshData_begin t s = loadData_begin t (s\<lparr>cache := (cache s)((getCacheKey s) := None)\<rparr>)"

definition refreshData :: "int \<Rightarrow> int \<Rightarrow> fetch_result \<Rightarrow> dashboard \<Rightarrow> dashboard" where
  "refreshData t t' r s = loadData t t' r (s\<lparr>cache := (cache s)((getCacheKey s) := None)\<rparr>)"

text \<open>A pending zero-delay timer fires: it is used up and runs \<^verbatim>\<open>refreshData\<close>.\<close>

definition timer_fires :: "int \<Rightarrow> dashboard \<Rightarrow> load_step option" where
  "timer_fires t s =
     (if timers s = 0 then None else Some (refreshData_begin t (s\<lparr>timers := timers s - 1\<rparr>)))"

section \<open>Loading data: the Tailwind page\<close>

text \<open>
  The variant of the page built on Tailwind CSS has the same fields and the same
  algorithm. It differs in the key prefix, in the persistent read
  (\<open>getLocalCachedData_tw\<close>), in the HTTP client (axios, which rejects the promise
  for a status outside 2xx and hands over the parsed body, or the body's text when it
  does not parse), in \<^verbatim>\<open>showError\<close>, which writes its banner into
  \<^verbatim>\<open>#summaryCards\<close>, and in \<^verbatim>\<open>refreshData\<close>, which empties the whole in-memory
  cache.
\<close>

definition getCacheKey_tw :: "dashboard \<Rightarrow> string" where
  "getCacheKey_tw s =
     ''log-types-'' @ (case timeRange s of None \<Rightarrow> ''1'' | Some v \<Rightarrow> if v = [] then ''1'' else v)"

fun received_tw :: "fetch_result \<Rightarrow> js_error + jsval" where
  "received_tw Rejected = Inl NetworkError"
| "received_tw (Response ok b) =
     (if \<not> ok then Inl HttpError
      else Inr (js_or (case b of Unparsable txt \<Rightarrow> JStr txt | Parsed d \<Rightarrow> d) (JObj [])))"

definition showError_tw :: "js_error \<Rightarrow> dashboard \<Rightarrow> dashboard" where
  "showError_tw e s = (if cards_host s then s\<lparr>cards_banner := Some e\<rparr> else s)"

definition loadData_tw_begin :: "int \<Rightarrow> dashboard \<Rightarrow> load_step" where
  "loadData_tw_begin t s =
     (let localKey = getCacheKey_tw s;
          localCached = getLocalCachedData_tw t localKey False (localStorage s)
      in if truthy localCached
         then Finished (s\<lparr>data := localCached, timers := Suc (timers s)\<rparr>)
         else
           let cacheKey = getCacheKey_tw s;
               cachedData = getCachedData t cacheKey s
           in if truthy cachedData then Finished (s\<lparr>data := cachedData\<rparr>)
              else
                let now = t
                in if now - lastRequestTime s < minRequestInterval then Finished s
                   else Awaiting (s\<lparr>requests := Suc (requests s)\<rparr>) now cacheKey)"

definition loadData_tw_try :: "int \<Rightarrow> int \<Rightarrow> string \<Rightarrow> fetch_result \<Rightarrow> dashboard \<Rightarrow> js_error + dashboard" where
  "loadData_tw_try t now cacheKey r s =
     on_ok (received_tw r) (\<lambda>raw.
       on_ok (ensure_fields raw) (\<lambda>d.
         Inr ((setCachedData t cacheKey d (s\<lparr>data := d\<rparr>))
                \<lparr>lastRequestTime := now,
                 localStorage := setLocalCachedData t cacheKey d (localStorage s)\<rparr>)))"

definition loadData_tw_catch :: "int \<Rightarrow> js_error \<Rightarrow> dashboard \<Rightarrow> dashboard" where
  "loadData_tw_catch t e s =
     (let fallback = getLocalCachedData_tw t (getCacheKey_tw s) True (localStorage s)
      in if truthy fallback then s\<lparr>data := fallback\<rparr>
         else (showError_tw e s)\<lparr>data := default_snapshot\<rparr>)"

definition loadData_tw_resume :: "int \<Rightarrow> int \<Rightarrow> string \<Rightarrow> fetch_result \<Rightarrow> dashboard \<Rightarrow> dashboard" where
  "loadData_tw_resume t now cacheKey r s =
     (case loadData_tw_try t now cacheKey r s of Inl e \<Rightarrow> loadData_tw_catch t e s | Inr s' \<Rightarrow> s')"

definition loadData_tw :: "int \<Rightarrow> int \<Rightarrow> fetch_result \<Rightarrow> dashboard \<Rightarrow> dashboard" where
  "loadData_tw t t' r s =
     (case loadData_tw_begin t s of
        Finished s' \<Rightarrow> s'
      | Awaiting s' now cacheKey \<Rightarrow> loadData_tw_resume t' now cacheKey r s')"

text \<open>
  \<^verbatim>\<open>renderDashboard()\<close> of this page returns at once when \<^verbatim>\<open>this.data\<close> is
  falsy; otherwise \<^verbatim>\<open>renderSummaryCards()\<close> comes first and replaces the content
  of \<^verbatim>\<open>#summaryCards\<close>, so a banner that \<^verbatim>\<open>showError\<close> has put there is gone.
\<close>

definition renderDashboard_tw :: "dashboard \<Rightarrow> dashboard" where
  "renderDashboard_tw s = (if truthy (data s) \<and> cards_host s then s\<lparr>cards_banner := None\<rparr> else s)"

definition refreshData_tw_begin :: "int \<Rightarrow> dashboard \<Rightarrow> load_step" where
  "refreshData_tw_begin t s =
     (case loadData_tw_begin t (s\<lparr>cache := Map.empty\<rparr>) of
        Finished s' \<Rightarrow> Finished (renderDashboard_tw s')
      | Awaiting s' now cacheKey \<Rightarrow> Awaiting s' now cacheKey)"

definition refreshData_tw :: "int \<Rightarrow> int \<Rightarrow> fetch_result \<Rightarrow> dashboard \<Rightarrow> dashboard" where
  "refreshData_tw t t' r s = renderDashboard_tw (loadData_tw t t' r (s\<lparr>cache := Map.empty\<rparr>))"

definition timer_fires_tw :: "int \<Rightarrow> dashboard \<Rightarrow> load_step option" where
  "timer_fires_tw t s =
     (if timers s = 0 then None else Some (refreshData_tw_begin t (s\<lparr>timers := timers s - 1\<rparr>)))"

text \<open>
  The timers fire one after the other, at the clock readings of the list: the chain
  goes on as long as each \<^verbatim>\<open>refreshData\<close> ends without a request, and stops
  at the first one that sends a request (or when no timer is pending).
\<close>

fun timer_chain :: "int list \<Rightarrow> dashboard \<Rightarrow> load_step option" where
  "timer_chain [] s = Some (Finished s)"
| "timer_chain (t # ts) s =
     (case timer_fires t s of
        Some (Finished s') \<Rightarrow> timer_chain ts s'
      | other \<Rightarrow> other)"

fun timer_chain_tw :: "int list \<Rightarrow> dashboard \<Rightarrow> load_step option" where
  "timer_chain_tw [] s = Some (Finished s)"
| "timer_chain_tw (t # ts) s =
     (case timer_fires_tw t s of
        Some (Finished s') \<Rightarrow> timer_chain_tw ts s'
      | other \<Rightarrow> other)"

section \<open>Rendering the recent errors\<close>

text \<open>
  \<^verbatim>\<open>renderRecentErrors()\<close> decides between the empty-state notice (an info alert
  on the Bootstrap page, the "no error logs" block on the Tailwind page) and the table.
  \<open>host\<close> says whether the \<^verbatim>\<open>#recentErrors\<close> element exists, \<open>d\<close> is
  \<^verbatim>\<open>this.data\<close>. For the table the model keeps the rows that \<^verbatim>\<open>map\<close> is called
  on (a TypeError when the value has no \<^verbatim>\<open>map\<close>); it does not follow the markup of
  the single rows.
\<close>

datatype errors_view = Not_rendered | Empty_notice | Rows_of "jsval list"

definition renderRecentErrors :: "bool \<Rightarrow> jsval \<Rightarrow> js_error + errors_view" where
  "renderRecentErrors host d =
     (if \<not> host \<or> \<not> truthy d then Inr Not_rendered
      else on_ok (get_prop d ''recent_errors'') (\<lambda>re.
        let recentErrors = js_or re (JArr [])
        in on_ok (get_prop recentErrors ''length'') (\<lambda>len.
             if len = JNum 0 then Inr Empty_notice
             else case recentErrors of JArr xs \<Rightarrow> Inr (Rows_of xs) | _ \<Rightarrow> Inl TypeError)))"

definition renderRecentErrors_tw :: "bool \<Rightarrow> jsval \<Rightarrow> js_error + errors_view" where
  "renderRecentErrors_tw host d =
     (if \<not> host then Inr Not_rendered
      else on_ok (get_prop d ''recent_errors'') (\<lambda>re.
        let errors = js_or re (JArr [])
        in on_ok (get_prop errors ''length'') (\<lambda>len.
             if len = JNum 0 then Inr Empty_notice
             else case errors of JArr xs \<Rightarrow> Inr (Rows_of (take 10 xs)) | _ \<Rightarrow> Inl TypeError)))"

section \<open>Escaping text for HTML\<close>

text \<open>
  \<^verbatim>\<open>String(v)\<close>: a string is itself; an array is its elements joined by commas,
  with nothing for \<^verbatim>\<open>null\<close> and \<^verbatim>\<open>undefined\<close>; a plain object is
  \<^verbatim>\<open>[object Object]\<close>; an integer is printed in decimal (as JavaScript does below
  \<open>10\<^sup>2\<^sup>1\<close>).
\<close>

fun show_nat :: "nat \<Rightarrow> string" where
  "show_nat n =
     (if n < 10 then [char_of (48 + n)] else show_nat (n div 10) @ [char_of (48 + n mod 10)])"

definition show_int :: "int \<Rightarrow> string" where
  "show_int i = (if i < 0 then CHR ''-'' # show_nat (nat (- i)) else show_nat (nat i))"

fun js_String :: "jsval \<Rightarrow> string"
  and js_join :: "jsval list \<Rightarrow> string" where
  "js_String JUndefined = ''undefined''"
| "js_String JNull = ''null''"
| "js_String (JBool b) = (if b then ''true'' else ''false'')"
| "js_String (JNum n) = show_int n"
| "js_String (JStr s) = s"
| "js_String (JArr xs) = js_join xs"
| "js_String (JObj kvs) = ''[object Object]''"
| "js_join [] = []"
| "js_join (x # xs) =
     (if x = JNull \<or> x = JUndefined then [] else js_String x)
       @ (if xs = [] then [] else CHR '','' # js_join xs)"

text \<open>One \<^verbatim>\<open>.replace(/c/g, entity)\<close>: every occurrence of the character.\<close>

definition replace_all :: "char \<Rightarrow> string \<Rightarrow> string \<Rightarrow> string" where
  "replace_all c entity s = concat (map (\<lambda>x. if x = c then entity else [x]) s)"

text \<open>
  \<^verbatim>\<open>escapeHtml(str)\<close> of the Bootstrap page: nothing for \<^verbatim>\<open>null\<close> and
  \<^verbatim>\<open>undefined\<close>, otherwise the five replacements on \<^verbatim>\<open>String(str)\<close> in the
  order of the source, the ampersand first. \<open>CHR 0x22\<close> is the double quote and
  \<open>CHR 0x27\<close> the single quote.
\<close>

definition five_passes :: "string \<Rightarrow> string" where
  "five_passes s =
     replace_all (CHR 0x27) ''&#39;''
       (replace_all (CHR 0x22) ''&quot;''
         (replace_all CHR ''>'' ''&gt;''
           (replace_all CHR ''<'' ''&lt;''
             (replace_all CHR ''&'' ''&amp;'' s))))"

definition escapeHtml :: "jsval \<Rightarrow> string" where
  "escapeHtml str = (if str = JNull \<or> str = JUndefined then [] else five_passes (js_String str))"

section \<open>Percentages\<close>



section \<open>What escaped text looks like\<close>

text \<open>
  The entity that stands for a character in HTML text, and the test that a text has
  none of the five characters left unescaped: no angle bracket and no quote at all,
  and every ampersand opens one of the five entities.
\<close>

definition html_entity :: "char \<Rightarrow> string" where
  "html_entity c =
     (if c = CHR ''&'' then ''&amp;''
      else if c = CHR ''<'' then ''&lt;''
      else if c = CHR ''>'' then ''&gt;''
      else if c = CHR 0x22 then ''&quot;''
      else if c = CHR 0x27 then ''&#39;''
      else [c])"

fun escaped :: "string \<Rightarrow> bool" where
  "escaped [] = True"
| "escaped (c # cs) =
     (c \<notin> set [CHR ''<'', CHR ''>'', CHR 0x22, CHR 0x27]
      \<and> (c = CHR ''&'' \<longrightarrow>
            (\<exists>e \<in> set [''amp;'', ''lt;'', ''gt;'', ''quot;'', ''#39;'']. take (length e) cs = e))
      \<and> escaped cs)"

section \<open>Example pages\<close>

text \<open>
  Concrete stores, snapshots and responses on which the theorems below are
  instantiated: an empty store; a store whose record for the default key of either page
  was written at clock reading 1000; a store with an unreadable record and no room left.
\<close>

definition demo_store :: storage where
  "demo_store = \<lparr>items = Map.empty, blocked = False, full = False\<rparr>"

definition demo_snapshot :: jsval where
  "demo_snapshot = JObj [(''total_logs'', JNum 5)]"

definition demo_stale_store :: storage where
  "demo_stale_store =
     \<lparr>items = [''log_analysis_1'' \<mapsto> Raw_json (JObj [(''data'', demo_snapshot), (''timestamp'', JNum 1000)]),
               ''log-types-1'' \<mapsto> Raw_json (JObj [(''data'', demo_snapshot), (''timestamp'', JNum 1000)])],
      blocked = False, full = False\<rparr>"

definition demo_broken_store :: storage where
  "demo_broken_store = \<lparr>items = [''log_analysis_1'' \<mapsto> Raw_invalid], blocked = False, full = True\<rparr>"

definition demo_page :: dashboard where
  "demo_page = new_dashboard demo_store None True True"

definition demo_response :: fetch_result where
  "demo_response = Response True (Parsed demo_snapshot)"

text \<open>
  Pages built from them: a new page on the empty store; a new page on the store with
  the record of clock reading 1000, and the same page once \<^verbatim>\<open>loadData\<close> has served
  that record; a page with fresh in-memory entries; and the page after a first load or
  refresh at 10000 whose response arrived at 10100.
\<close>

definition demo_cached_page :: dashboard where
  "demo_cached_page = new_dashboard demo_stale_store None True True"

definition demo_served :: dashboard where
  "demo_served = demo_cached_page\<lparr>data := demo_snapshot, timers := 1\<rparr>"

definition demo_warm_page :: dashboard where
  "demo_warm_page = setCachedData 9000 ''log_analysis_1'' demo_snapshot
                      (setCachedData 9000 ''log-types-1'' demo_snapshot demo_page)"

definition demo_loaded :: dashboard where
  "demo_loaded = loadData 10000 10100 demo_response demo_page"

definition demo_loaded_tw :: dashboard where
  "demo_loaded_tw = loadData_tw 10000 10100 demo_response demo_page"

definition demo_refreshed :: dashboard where
  "demo_refreshed = refreshData 10000 10100 demo_response demo_page"

definition demo_refreshed_tw :: dashboard where
  "demo_refreshed_tw = refreshData_tw 10000 10100 demo_response demo_page"

text \<open>The snapshot that the response \<^verbatim>\<open>{"total_logs": 5}\<close> is normalised to.\<close>

definition demo_normalized :: jsval where
  "demo_normalized =
     JObj [(''total_logs'', JNum 5),
           (''cleaned_logs_count'', JNum 0),
           (''time_range'', JStr default_time_range),
           (''processing_status'', JStr ''unknown''),
           (''business_modules'', JObj []),
           (''error_categories'', JObj []),
           (''error_types'', JObj []),
           (''severity_distribution'', JObj []),
           (''recent_errors'', JArr []),
           (''cleaning_summary'', JObj [])]"

text \<open>What the read of a property gives where it does not throw.\<close>

definition field :: "jsval \<Rightarrow> string \<Rightarrow> jsval" where
  "field v k = (case get_prop v k of Inl e \<Rightarrow> JUndefined | Inr x \<Rightarrow> x)"

section \<open>Helper lemmas\<close>

lemma on_ok_simps [simp]:
  "on_ok (Inl e) f = Inl e" "on_ok (Inr v) f = f v"
  by (simp_all add: on_ok_def)

lemma getCachedData_after_set:
  "getCachedData now key (setCachedData t0 key d s) = (if now - t0 < cacheTimeout then d else JNull)"
  by (simp add: getCachedData_def setCachedData_def)

lemma getCachedData_other_key:
  "key' \<noteq> key \<Longrightarrow> getCachedData now key (setCachedData t1 key' d' s) = getCachedData now key s"
  by (simp add: getCachedData_def setCachedData_def)

lemma get_local_entry:
  assumes "items st key = Some (Raw_json (JObj [(''data'', d), (''timestamp'', JNum t0)]))"
    and "\<not> blocked st" and "truthy d" and "t0 \<noteq> 0"
  shows "getLocalCachedData now key a st = (if now - t0 < localCacheTTL \<or> a then d else JNull)"
  using assms
  by (simp add: getLocalCachedData_def getLocalCachedData_try_def localStorage_getItem_def age_below_def)

lemma get_local_tw_entry:
  assumes "items st key = Some (Raw_json (JObj [(''data'', d), (''timestamp'', JNum t0)]))"
    and "\<not> blocked st"
  shows "getLocalCachedData_tw now key a st = (if a \<or> now - t0 < localCacheTTL then d else JNull)"
  using assms
  by (simp add: getLocalCachedData_tw_def getLocalCachedData_tw_try_def localStorage_getItem_def age_below_def)

lemma get_local_caught:
  "getLocalCachedData_try now key a st = Inl e \<Longrightarrow> getLocalCachedData now key a st = JNull"
  by (simp add: getLocalCachedData_def)

lemma get_local_tw_caught:
  "getLocalCachedData_tw_try now key a st = Inl e \<Longrightarrow> getLocalCachedData_tw now key a st = JNull"
  by (simp add: getLocalCachedData_tw_def)

lemma set_local_caught:
  "setLocalCachedData_try now key d st = Inl e \<Longrightarrow> setLocalCachedData now key d st = st"
  by (simp add: setLocalCachedData_def)

lemma blocked_read:
  "blocked st \<Longrightarrow> getLocalCachedData_try now key a st = Inl StorageError"
  "blocked st \<Longrightarrow> getLocalCachedData_tw_try now key a st = Inl StorageError"
  by (simp_all add: getLocalCachedData_try_def getLocalCachedData_tw_try_def localStorage_getItem_def)

lemma invalid_read:
  "\<not> blocked st \<Longrightarrow> items st key = Some Raw_invalid \<Longrightarrow> getLocalCachedData_try now key a st = Inl SyntaxError"
  "\<not> blocked st \<Longrightarrow> items st key = Some Raw_invalid \<Longrightarrow> getLocalCachedData_tw_try now key a st = Inl SyntaxError"
  by (simp_all add: getLocalCachedData_try_def getLocalCachedData_tw_try_def localStorage_getItem_def)

lemma refused_write:
  "blocked st \<or> full st \<Longrightarrow> setLocalCachedData_try now key d st = Inl StorageError"
  by (simp add: setLocalCachedData_try_def localStorage_setItem_def)

section \<open>The caches\<close>

text \<open>
  Claim C4. A read of the in-memory cache less than 30000 ms after the last
  \<^verbatim>\<open>setCachedData\<close> of the key returns exactly the payload stored then, whatever the
  cache held before and whatever was stored under other keys in between; once the age
  is no longer below 30000 ms the read returns \<^verbatim>\<open>null\<close>. In particular an entry
  stored at 0 is returned at 29999 and absent at 30001.
\<close>

theorem volatile_cache_ttl:
  "(now - t0 < 30000 \<longrightarrow> getCachedData now key (setCachedData t0 key d s) = d)
   \<and> (\<not> now - t0 < 30000 \<longrightarrow> getCachedData now key (setCachedData t0 key d s) = JNull)
   \<and> (key' \<noteq> key \<longrightarrow>
        getCachedData now key (setCachedData t1 key' d' (setCachedData t0 key d s))
          = getCachedData now key (setCachedData t0 key d s))
   \<and> getCachedData 29999 key (setCachedData 0 key d s) = d
   \<and> getCachedData 30001 key (setCachedData 0 key d s) = JNull"
  by (simp add: getCachedData_after_set getCachedData_other_key cacheTimeout_def)

theorem volatile_cache_ttl_witness:
  "(29999 - 0 < (30000::int)
      \<and> getCachedData 29999 ''log_analysis_1''
           (setCachedData 0 ''log_analysis_1'' demo_snapshot demo_page) = demo_snapshot)
   \<and> (\<not> 30000 - 0 < (30000::int)
      \<and> getCachedData 30000 ''log_analysis_1''
           (setCachedData 0 ''log_analysis_1'' demo_snapshot demo_page) = JNull)
   \<and> (''log_analysis_5'' \<noteq> ''log_analysis_1''
      \<and> getCachedData 10 ''log_analysis_1''
           (setCachedData 7 ''log_analysis_5'' JNull
             (setCachedData 0 ''log_analysis_1'' demo_snapshot demo_page)) = demo_snapshot)"
  using volatile_cache_ttl [of 29999 0 "''log_analysis_1''" demo_snapshot demo_page]
        volatile_cache_ttl [of 30000 0 "''log_analysis_1''" demo_snapshot demo_page]
        volatile_cache_ttl [of 10 0 "''log_analysis_1''" demo_snapshot demo_page "''log_analysis_5''" 7 JNull]
  by simp

text \<open>
  Claim C5. When the store holds a record \<^verbatim>\<open>{ data, timestamp }\<close> for the key (a
  payload that is not falsy, a time stamp that is not 0, as every record written by
  \<^verbatim>\<open>setLocalCachedData\<close> has), the read with \<^verbatim>\<open>allowStale = true\<close> returns the
  payload at every clock reading, and once the record is 60000 ms old or older the read
  with \<^verbatim>\<open>allowStale = false\<close> returns \<^verbatim>\<open>null\<close>. Both pages.
\<close>

theorem stale_fallback:
  assumes "items st key = Some (Raw_json (JObj [(''data'', d), (''timestamp'', JNum t0)]))"
    and "\<not> blocked st" and "truthy d" and "t0 \<noteq> 0"
  shows "getLocalCachedData now key True st = d
       \<and> getLocalCachedData_tw now key True st = d
       \<and> (60000 \<le> now - t0 \<longrightarrow>
            getLocalCachedData now key False st = JNull
          \<and> getLocalCachedData_tw now key False st = JNull)"
  using assms by (simp add: get_local_entry get_local_tw_entry localCacheTTL_def)

theorem stale_fallback_witness:
  "items demo_stale_store ''log_analysis_1''
     = Some (Raw_json (JObj [(''data'', demo_snapshot), (''timestamp'', JNum 1000)]))
   \<and> \<not> blocked demo_stale_store \<and> truthy demo_snapshot \<and> (1000::int) \<noteq> 0
   \<and> (60000::int) \<le> 91000 - 1000
   \<and> getLocalCachedData 91000 ''log_analysis_1'' True demo_stale_store = demo_snapshot
   \<and> getLocalCachedData_tw 91000 ''log_analysis_1'' True demo_stale_store = demo_snapshot
   \<and> getLocalCachedData 91000 ''log_analysis_1'' False demo_stale_store = JNull
   \<and> getLocalCachedData_tw 91000 ''log_analysis_1'' False demo_stale_store = JNull"
proof -
  have h1: "items demo_stale_store ''log_analysis_1''
     = Some (Raw_json (JObj [(''data'', demo_snapshot), (''timestamp'', JNum 1000)]))"
    by (simp add: demo_stale_store_def)
  have h2: "\<not> blocked demo_stale_store" by (simp add: demo_stale_store_def)
  have h3: "truthy demo_snapshot" by (simp add: demo_snapshot_def)
  have h4: "(1000::int) \<noteq> 0" by simp
  show ?thesis using stale_fallback [OF h1 h2 h3 h4, of 91000] h1 h2 h3 by simp
qed

text \<open>
  Claim C8. Whatever goes wrong inside a read or a write of the persistent cache is
  caught: a read whose body throws returns \<^verbatim>\<open>null\<close>, a write whose body throws
  leaves the store unchanged, and the functions themselves return plain values, never
  an error. A blocked store and a record that does not parse make the read throw; a
  blocked or full store makes the write throw. Both pages.
\<close>

theorem durable_failures_are_misses:
  "(getLocalCachedData_try now key a st = Inl e \<longrightarrow> getLocalCachedData now key a st = JNull)
   \<and> (getLocalCachedData_tw_try now key a st = Inl e \<longrightarrow> getLocalCachedData_tw now key a st = JNull)
   \<and> (setLocalCachedData_try now key d st = Inl e \<longrightarrow> setLocalCachedData now key d st = st)
   \<and> (blocked st \<or> items st key = Some Raw_invalid \<longrightarrow>
        getLocalCachedData now key a st = JNull \<and> getLocalCachedData_tw now key a st = JNull)
   \<and> (blocked st \<or> full st \<longrightarrow> setLocalCachedData now key d st = st)"
proof (intro conjI impI)
  assume "blocked st \<or> items st key = Some Raw_invalid"
  then have "(\<exists>x. getLocalCachedData_try now key a st = Inl x)
           \<and> (\<exists>x. getLocalCachedData_tw_try now key a st = Inl x)"
    using blocked_read invalid_read by (cases "blocked st") blast+
  then show "getLocalCachedData now key a st = JNull" "getLocalCachedData_tw now key a st = JNull"
    using get_local_caught get_local_tw_caught by blast+
next
  assume "blocked st \<or> full st"
  then show "setLocalCachedData now key d st = st"
    using refused_write set_local_caught by blast
qed (simp_all add: get_local_caught get_local_tw_caught set_local_caught)

theorem durable_failures_are_misses_witness:
  "getLocalCachedData_try 5000 ''log_analysis_1'' True demo_broken_store = Inl SyntaxError
   \<and> getLocalCachedData_tw_try 5000 ''log_analysis_1'' True demo_broken_store = Inl SyntaxError
   \<and> setLocalCachedData_try 5000 ''log_analysis_1'' demo_snapshot demo_broken_store = Inl StorageError
   \<and> items demo_broken_store ''log_analysis_1'' = Some Raw_invalid
   \<and> full demo_broken_store
   \<and> getLocalCachedData 5000 ''log_analysis_1'' True demo_broken_store = JNull
   \<and> getLocalCachedData_tw 5000 ''log_analysis_1'' True demo_broken_store = JNull
   \<and> setLocalCachedData 5000 ''log_analysis_1'' demo_snapshot demo_broken_store = demo_broken_store"
proof -
  have r: "getLocalCachedData_try 5000 ''log_analysis_1'' True demo_broken_store = Inl SyntaxError"
    by (simp add: getLocalCachedData_try_def localStorage_getItem_def demo_broken_store_def)
  have rt: "getLocalCachedData_tw_try 5000 ''log_analysis_1'' True demo_broken_store = Inl SyntaxError"
    by (simp add: getLocalCachedData_tw_try_def localStorage_getItem_def demo_broken_store_def)
  have w: "setLocalCachedData_try 5000 ''log_analysis_1'' demo_snapshot demo_broken_store = Inl StorageError"
    by (simp add: setLocalCachedData_try_def localStorage_setItem_def demo_broken_store_def)
  have i: "items demo_broken_store ''log_analysis_1'' = Some Raw_invalid"
    by (simp add: demo_broken_store_def)
  have f: "full demo_broken_store" by (simp add: demo_broken_store_def)
  show ?thesis
    using durable_failures_are_misses [of 5000 "''log_analysis_1''" True demo_broken_store SyntaxError demo_snapshot]
      durable_failures_are_misses [of 5000 "''log_analysis_1''" True demo_broken_store StorageError demo_snapshot]
      r rt w i f
    by simp
qed

section \<open>Helper lemmas on loading\<close>

lemma loadData_begin_cases:
  "loadData_begin t s =
     (if truthy (getLocalCachedData t (getCacheKey s) False (localStorage s))
      then Finished (s\<lparr>data := getLocalCachedData t (getCacheKey s) False (localStorage s),
                       timers := Suc (timers s)\<rparr>)
      else if truthy (getCachedData t (getCacheKey s) s)
      then Finished (s\<lparr>data := getCachedData t (getCacheKey s) s\<rparr>)
      else if t - lastRequestTime s < minRequestInterval then Finished s
      else Awaiting (s\<lparr>requests := Suc (requests s)\<rparr>) t (getCacheKey s))"
  by (simp add: loadData_begin_def Let_def)

lemma loadData_tw_begin_cases:
  "loadData_tw_begin t s =
     (if truthy (getLocalCachedData_tw t (getCacheKey_tw s) False (localStorage s))
      then Finished (s\<lparr>data := getLocalCachedData_tw t (getCacheKey_tw s) False (localStorage s),
                       timers := Suc (timers s)\<rparr>)
      else if truthy (getCachedData t (getCacheKey_tw s) s)
      then Finished (s\<lparr>data := getCachedData t (getCacheKey_tw s) s\<rparr>)
      else if t - lastRequestTime s < minRequestInterval then Finished s
      else Awaiting (s\<lparr>requests := Suc (requests s)\<rparr>) t (getCacheKey_tw s))"
  by (simp add: loadData_tw_begin_def Let_def)

lemma limiter_denies:
  "t - lastRequestTime s < minRequestInterval \<Longrightarrow>
     \<exists>s'. loadData_begin t s = Finished s' \<and> requests s' = requests s"
  by (simp add: loadData_begin_cases)

lemma limiter_denies_tw:
  "t - lastRequestTime s < minRequestInterval \<Longrightarrow>
     \<exists>s'. loadData_tw_begin t s = Finished s' \<and> requests s' = requests s"
  by (simp add: loadData_tw_begin_cases)

lemma limiter_allows:
  "\<not> t - lastRequestTime s < minRequestInterval \<Longrightarrow>
   \<not> truthy (getLocalCachedData t (getCacheKey s) False (localStorage s)) \<Longrightarrow>
   \<not> truthy (getCachedData t (getCacheKey s) s) \<Longrightarrow>
     loadData_begin t s = Awaiting (s\<lparr>requests := Suc (requests s)\<rparr>) t (getCacheKey s)"
  by (simp add: loadData_begin_cases)

lemma limiter_allows_tw:
  "\<not> t - lastRequestTime s < minRequestInterval \<Longrightarrow>
   \<not> truthy (getLocalCachedData_tw t (getCacheKey_tw s) False (localStorage s)) \<Longrightarrow>
   \<not> truthy (getCachedData t (getCacheKey_tw s) s) \<Longrightarrow>
     loadData_tw_begin t s = Awaiting (s\<lparr>requests := Suc (requests s)\<rparr>) t (getCacheKey_tw s)"
  by (simp add: loadData_tw_begin_cases)

lemma awaiting_now:
  "loadData_begin t s = Awaiting s1 now key \<Longrightarrow>
     now = t \<and> key = getCacheKey s \<and> s1 = s\<lparr>requests := Suc (requests s)\<rparr>"
  by (simp add: loadData_begin_cases split: if_splits)

lemma awaiting_now_tw:
  "loadData_tw_begin t s = Awaiting s1 now key \<Longrightarrow>
     now = t \<and> key = getCacheKey_tw s \<and> s1 = s\<lparr>requests := Suc (requests s)\<rparr>"
  by (simp add: loadData_tw_begin_cases split: if_splits)

lemma try_records:
  "loadData_try t' now key r s1 = Inr s2 \<Longrightarrow>
     lastRequestTime s2 = now \<and> requests s2 = requests s1"
  by (auto simp: loadData_try_def on_ok_def setCachedData_def split: sum.splits)

lemma try_records_tw:
  "loadData_tw_try t' now key r s1 = Inr s2 \<Longrightarrow>
     lastRequestTime s2 = now \<and> requests s2 = requests s1"
  by (auto simp: loadData_tw_try_def on_ok_def setCachedData_def split: sum.splits)



lemma render_tw_keeps [simp]:
  "requests (renderDashboard_tw s) = requests s"
  "lastRequestTime (renderDashboard_tw s) = lastRequestTime s"
  "localStorage (renderDashboard_tw s) = localStorage s"
  "timers (renderDashboard_tw s) = timers s"
  "data (renderDashboard_tw s) = data s"
  by (simp_all add: renderDashboard_tw_def)

lemma refresh_while_fresh:
  assumes "truthy (getLocalCachedData t (getCacheKey s) False (localStorage s))"
  shows "refreshData_begin t s =
           Finished (s\<lparr>cache := (cache s)((getCacheKey s) := None),
                        data := getLocalCachedData t (getCacheKey s) False (localStorage s),
                        timers := Suc (timers s)\<rparr>)"
  using assms by (simp add: refreshData_begin_def loadData_begin_cases getCacheKey_def)

lemma refresh_tw_while_fresh:
  assumes "truthy (getLocalCachedData_tw t (getCacheKey_tw s) False (localStorage s))"
  shows "refreshData_tw_begin t s =
           Finished (renderDashboard_tw (s\<lparr>cache := Map.empty,
                        data := getLocalCachedData_tw t (getCacheKey_tw s) False (localStorage s),
                        timers := Suc (timers s)\<rparr>))"
  using assms by (simp add: refreshData_tw_begin_def loadData_tw_begin_cases getCacheKey_tw_def)


text \<open>The equations that evaluate the model on the example pages.\<close>

lemmas eval_defs =
  loadData_def loadData_begin_cases loadData_resume_def loadData_try_def loadData_catch_def
  loadData_tw_def loadData_tw_begin_cases loadData_tw_resume_def loadData_tw_try_def loadData_tw_catch_def
  refreshData_def refreshData_begin_def refreshData_tw_def refreshData_tw_begin_def renderDashboard_tw_def
  timer_fires_def timer_fires_tw_def
  getCacheKey_def getCacheKey_tw_def getCachedData_def setCachedData_def
  getLocalCachedData_def getLocalCachedData_try_def getLocalCachedData_tw_def getLocalCachedData_tw_try_def
  setLocalCachedData_def setLocalCachedData_try_def localStorage_getItem_def localStorage_setItem_def
  JSON_stringify_def age_below_def showError_def showError_tw_def
  ensure_fields_def field_defaults_def printCleaningSummary_def js_or_def
  minRequestInterval_def localCacheTTL_def cacheTimeout_def
  new_dashboard_def demo_page_def demo_store_def demo_snapshot_def demo_stale_store_def
  demo_response_def demo_cached_page_def demo_served_def Let_def
  demo_warm_page_def demo_refreshed_def demo_refreshed_tw_def demo_loaded_def demo_loaded_tw_def

section \<open>Serving from the persistent cache\<close>

text \<open>
  While the record in the persistent cache is fresh, a timer that fires serves it again
  and sets the next timer; by induction on the clock readings, a chain of any length
  sends no request and does not touch the store.
\<close>

lemma timer_while_fresh:
  assumes "items (localStorage s) (getCacheKey s)
             = Some (Raw_json (JObj [(''data'', d), (''timestamp'', JNum t0)]))"
    and "\<not> blocked (localStorage s)" and "truthy d" and "t0 \<noteq> 0"
    and "t - t0 < 60000" and "0 < timers s"
  shows "timer_fires t s
           = Some (Finished (s\<lparr>cache := (cache s)((getCacheKey s) := None), data := d\<rparr>))"
proof -
  let ?s = "s\<lparr>timers := timers s - 1\<rparr>"
  have k: "getCacheKey ?s = getCacheKey s" by (simp add: getCacheKey_def)
  have "getLocalCachedData t (getCacheKey s) False (localStorage s) = d"
    using get_local_entry [OF assms(1-4), of t False] assms(5) by (simp add: localCacheTTL_def)
  then have g: "getLocalCachedData t (getCacheKey ?s) False (localStorage ?s) = d"
    using k by simp
  have "refreshData_begin t ?s
          = Finished (?s\<lparr>cache := (cache ?s)((getCacheKey ?s) := None), data := d,
                          timers := Suc (timers ?s)\<rparr>)"
    using refresh_while_fresh [of t ?s] g assms(3) by simp
  with assms(6) show ?thesis by (simp add: timer_fires_def getCacheKey_def)
qed

lemma chain_while_fresh:
  assumes "items (localStorage s) (getCacheKey s)
             = Some (Raw_json (JObj [(''data'', d), (''timestamp'', JNum t0)]))"
    and "\<not> blocked (localStorage s)" and "truthy d" and "t0 \<noteq> 0"
    and "\<forall>t \<in> set ts. t - t0 < 60000" and "0 < timers s"
  shows "\<exists>s'. timer_chain ts s = Some (Finished s')
            \<and> requests s' = requests s \<and> localStorage s' = localStorage s
            \<and> lastRequestTime s' = lastRequestTime s \<and> timers s' = timers s"
  using assms
proof (induction ts arbitrary: s)
  case Nil
  then show ?case by simp
next
  case (Cons t ts)
  let ?s1 = "s\<lparr>cache := (cache s)((getCacheKey s) := None), data := d\<rparr>"
  from Cons.prems(5) have a: "t - t0 < 60000" and b: "\<forall>t \<in> set ts. t - t0 < 60000"
    by simp_all
  have f: "timer_fires t s = Some (Finished ?s1)"
    using timer_while_fresh [OF Cons.prems(1-4) a Cons.prems(6)] .
  have k: "getCacheKey ?s1 = getCacheKey s" by (simp add: getCacheKey_def)
  have "\<exists>s'. timer_chain ts ?s1 = Some (Finished s')
            \<and> requests s' = requests ?s1 \<and> localStorage s' = localStorage ?s1
            \<and> lastRequestTime s' = lastRequestTime ?s1 \<and> timers s' = timers ?s1"
    using Cons.prems(1-4,6) b by (intro Cons.IH) (simp_all add: k)
  with f show ?case by simp
qed

lemma render_tw_keeps_range [simp]:
  "timeRange (renderDashboard_tw s) = timeRange s"
  by (simp add: renderDashboard_tw_def)

lemma timer_tw_while_fresh:
  assumes "items (localStorage s) (getCacheKey_tw s)
             = Some (Raw_json (JObj [(''data'', d), (''timestamp'', JNum t0)]))"
    and "\<not> blocked (localStorage s)" and "truthy d"
    and "t - t0 < 60000" and "0 < timers s"
  shows "\<exists>s'. timer_fires_tw t s = Some (Finished s')
            \<and> requests s' = requests s \<and> localStorage s' = localStorage s
            \<and> lastRequestTime s' = lastRequestTime s \<and> timers s' = timers s
            \<and> timeRange s' = timeRange s"
proof -
  let ?s = "s\<lparr>timers := timers s - 1\<rparr>"
  have k: "getCacheKey_tw ?s = getCacheKey_tw s" by (simp add: getCacheKey_tw_def)
  have "getLocalCachedData_tw t (getCacheKey_tw s) False (localStorage s) = d"
    using get_local_tw_entry [OF assms(1,2), of t False] assms(4) by (simp add: localCacheTTL_def)
  then have g: "getLocalCachedData_tw t (getCacheKey_tw ?s) False (localStorage ?s) = d"
    using k by simp
  have "refreshData_tw_begin t ?s
          = Finished (renderDashboard_tw (?s\<lparr>cache := Map.empty, data := d,
                          timers := Suc (timers ?s)\<rparr>))"
    using refresh_tw_while_fresh [of t ?s] g assms(3) by simp
  with assms(5) show ?thesis by (simp add: timer_fires_tw_def)
qed

lemma chain_tw_while_fresh:
  assumes "items (localStorage s) (getCacheKey_tw s)
             = Some (Raw_json (JObj [(''data'', d), (''timestamp'', JNum t0)]))"
    and "\<not> blocked (localStorage s)" and "truthy d"
    and "\<forall>t \<in> set ts. t - t0 < 60000" and "0 < timers s"
  shows "\<exists>s'. timer_chain_tw ts s = Some (Finished s')
            \<and> requests s' = requests s \<and> localStorage s' = localStorage s
            \<and> lastRequestTime s' = lastRequestTime s \<and> timers s' = timers s"
  using assms
proof (induction ts arbitrary: s)
  case Nil
  then show ?case by simp
next
  case (Cons t ts)
  from Cons.prems(4) have a: "t - t0 < 60000" and b: "\<forall>t \<in> set ts. t - t0 < 60000"
    by simp_all
  from timer_tw_while_fresh [OF Cons.prems(1-3) a Cons.prems(5)]
  obtain s1 where f: "timer_fires_tw t s = Some (Finished s1)"
    and r: "requests s1 = requests s" "localStorage s1 = localStorage s"
      "lastRequestTime s1 = lastRequestTime s" "timers s1 = timers s" "timeRange s1 = timeRange s"
    by blast
  have k: "getCacheKey_tw s1 = getCacheKey_tw s" using r(5) by (simp add: getCacheKey_tw_def)
  have "\<exists>s'. timer_chain_tw ts s1 = Some (Finished s')
            \<and> requests s' = requests s1 \<and> localStorage s' = localStorage s1
            \<and> lastRequestTime s' = lastRequestTime s1 \<and> timers s' = timers s1"
    using Cons.prems(1-3,5) b r by (intro Cons.IH) (simp_all add: k)
  with f r show ?case by simp
qed

text \<open>
  Claim C1. A load that finds a fresh record in the persistent cache serves it and
  sets a zero-delay timer for \<^verbatim>\<open>refreshData\<close>. The claim has that background refresh
  perform a network request and update both caches. On the page whose store holds a
  record written at 1000, the load at 2000 serves the record and sets the timer; when
  the timer fires, at 2000 or at any reading up to 60999, \<^verbatim>\<open>refreshData\<close> runs the
  same \<^verbatim>\<open>loadData\<close>, finds the same fresh record, sends no request, leaves the
  store as it is and sets the next timer: the page is back in the state it was in.
  Both pages.
\<close>

theorem background_refresh_sends_no_request:
  "loadData_begin 2000 demo_cached_page = Finished demo_served
   \<and> data demo_served = demo_snapshot \<and> timers demo_served = 1 \<and> requests demo_served = 0
   \<and> timer_fires 2000 demo_served = Some (Finished demo_served)
   \<and> timer_fires 60999 demo_served = Some (Finished demo_served)
   \<and> loadData_tw_begin 2000 demo_cached_page = Finished demo_served
   \<and> timer_fires_tw 2000 demo_served = Some (Finished demo_served)
   \<and> timer_fires_tw 60999 demo_served = Some (Finished demo_served)"
  by (simp add: eval_defs)

section \<open>Manual refresh\<close>




section \<open>The rate limiter\<close>

text \<open>
  Claim C6, as the code has it. With a last request recorded at \<^verbatim>\<open>lastRequestTime\<close>,
  a load less than 5000 ms later ends without a network request, whatever the caches
  hold; a load 5000 ms or more later that finds nothing fresh in either cache sends the
  request. When a load at \<open>t\<close> has sent a request and the response has been taken
  in without error, the recorded time is \<open>t\<close>, the clock reading taken before the
  request was sent; so of two loads less than 5000 ms apart, the first of which sent a
  request that succeeded, the second is denied.
\<close>

theorem rate_limiter:
  "(t - lastRequestTime s < 5000 \<longrightarrow>
      (\<exists>s'. loadData_begin t s = Finished s' \<and> requests s' = requests s)
    \<and> (\<exists>s'. loadData_tw_begin t s = Finished s' \<and> requests s' = requests s))
   \<and> (5000 \<le> t - lastRequestTime s
        \<and> \<not> truthy (getLocalCachedData t (getCacheKey s) False (localStorage s))
        \<and> \<not> truthy (getCachedData t (getCacheKey s) s) \<longrightarrow>
          loadData_begin t s = Awaiting (s\<lparr>requests := Suc (requests s)\<rparr>) t (getCacheKey s))
   \<and> (5000 \<le> t - lastRequestTime s
        \<and> \<not> truthy (getLocalCachedData_tw t (getCacheKey_tw s) False (localStorage s))
        \<and> \<not> truthy (getCachedData t (getCacheKey_tw s) s) \<longrightarrow>
          loadData_tw_begin t s = Awaiting (s\<lparr>requests := Suc (requests s)\<rparr>) t (getCacheKey_tw s))
   \<and> (loadData_begin t s = Awaiting s1 now key \<and> loadData_try t' now key r s1 = Inr s2
        \<and> t2 - t < 5000 \<longrightarrow>
          lastRequestTime s2 = t
        \<and> (\<exists>s3. loadData_begin t2 s2 = Finished s3 \<and> requests s3 = requests s2))
   \<and> (loadData_tw_begin t s = Awaiting s1 now key \<and> loadData_tw_try t' now key r s1 = Inr s2
        \<and> t2 - t < 5000 \<longrightarrow>
          lastRequestTime s2 = t
        \<and> (\<exists>s3. loadData_tw_begin t2 s2 = Finished s3 \<and> requests s3 = requests s2))"
proof (intro conjI impI)
  assume "t - lastRequestTime s < 5000"
  then have d: "t - lastRequestTime s < minRequestInterval" by (simp add: minRequestInterval_def)
  show "\<exists>s'. loadData_begin t s = Finished s' \<and> requests s' = requests s"
    using limiter_denies [OF d] by blast
  show "\<exists>s'. loadData_tw_begin t s = Finished s' \<and> requests s' = requests s"
    using limiter_denies_tw [OF d] by blast
next
  assume "5000 \<le> t - lastRequestTime s
        \<and> \<not> truthy (getLocalCachedData t (getCacheKey s) False (localStorage s))
        \<and> \<not> truthy (getCachedData t (getCacheKey s) s)"
  then show "loadData_begin t s = Awaiting (s\<lparr>requests := Suc (requests s)\<rparr>) t (getCacheKey s)"
    by (simp add: limiter_allows minRequestInterval_def)
next
  assume "5000 \<le> t - lastRequestTime s
        \<and> \<not> truthy (getLocalCachedData_tw t (getCacheKey_tw s) False (localStorage s))
        \<and> \<not> truthy (getCachedData t (getCacheKey_tw s) s)"
  then show "loadData_tw_begin t s = Awaiting (s\<lparr>requests := Suc (requests s)\<rparr>) t (getCacheKey_tw s)"
    by (simp add: limiter_allows_tw minRequestInterval_def)
next
  assume a: "loadData_begin t s = Awaiting s1 now key \<and> loadData_try t' now key r s1 = Inr s2
        \<and> t2 - t < 5000"
  then have n: "now = t" using awaiting_now by blast
  with a show l: "lastRequestTime s2 = t" using try_records by blast
  from a l have "t2 - lastRequestTime s2 < minRequestInterval" by (simp add: minRequestInterval_def)
  then show "\<exists>s3. loadData_begin t2 s2 = Finished s3 \<and> requests s3 = requests s2"
    using limiter_denies by blast
next
  assume a: "loadData_tw_begin t s = Awaiting s1 now key \<and> loadData_tw_try t' now key r s1 = Inr s2
        \<and> t2 - t < 5000"
  then have n: "now = t" using awaiting_now_tw by blast
  with a show l: "lastRequestTime s2 = t" using try_records_tw by blast
  from a l have "t2 - lastRequestTime s2 < minRequestInterval" by (simp add: minRequestInterval_def)
  then show "\<exists>s3. loadData_tw_begin t2 s2 = Finished s3 \<and> requests s3 = requests s2"
    using limiter_denies_tw by blast
qed

theorem rate_limiter_witness:
  "lastRequestTime demo_loaded = 10000
   \<and> 14999 - lastRequestTime demo_loaded < 5000
   \<and> (\<exists>s'. loadData_begin 14999 demo_loaded = Finished s' \<and> requests s' = requests demo_loaded)
   \<and> (\<exists>s'. loadData_tw_begin 14999 demo_loaded = Finished s' \<and> requests s' = requests demo_loaded)
   \<and> 5000 \<le> 5000 - lastRequestTime demo_page
   \<and> \<not> truthy (getLocalCachedData 5000 (getCacheKey demo_page) False (localStorage demo_page))
   \<and> \<not> truthy (getCachedData 5000 (getCacheKey demo_page) demo_page)
   \<and> loadData_begin 5000 demo_page
       = Awaiting (demo_page\<lparr>requests := Suc (requests demo_page)\<rparr>) 5000 (getCacheKey demo_page)
   \<and> \<not> truthy (getLocalCachedData_tw 5000 (getCacheKey_tw demo_page) False (localStorage demo_page))
   \<and> \<not> truthy (getCachedData 5000 (getCacheKey_tw demo_page) demo_page)
   \<and> loadData_tw_begin 5000 demo_page
       = Awaiting (demo_page\<lparr>requests := Suc (requests demo_page)\<rparr>) 5000 (getCacheKey_tw demo_page)
   \<and> loadData_begin 10000 demo_page = Awaiting (demo_page\<lparr>requests := 1\<rparr>) 10000 ''log_analysis_1''
   \<and> loadData_try 10100 10000 ''log_analysis_1'' demo_response (demo_page\<lparr>requests := 1\<rparr>)
       = Inr demo_loaded
   \<and> 14999 - 10000 < (5000::int)
   \<and> (\<exists>s3. loadData_begin 14999 demo_loaded = Finished s3 \<and> requests s3 = requests demo_loaded)
   \<and> loadData_tw_begin 10000 demo_page = Awaiting (demo_page\<lparr>requests := 1\<rparr>) 10000 ''log-types-1''
   \<and> loadData_tw_try 10100 10000 ''log-types-1'' demo_response (demo_page\<lparr>requests := 1\<rparr>)
       = Inr demo_loaded_tw
   \<and> lastRequestTime demo_loaded_tw = 10000
   \<and> (\<exists>s3. loadData_tw_begin 14999 demo_loaded_tw = Finished s3 \<and> requests s3 = requests demo_loaded_tw)"
proof -
  have h1: "14999 - lastRequestTime demo_loaded < 5000"
    by (simp add: eval_defs)
  have h2: "5000 \<le> 5000 - lastRequestTime demo_page
        \<and> \<not> truthy (getLocalCachedData 5000 (getCacheKey demo_page) False (localStorage demo_page))
        \<and> \<not> truthy (getCachedData 5000 (getCacheKey demo_page) demo_page)"
    by (simp add: eval_defs)
  have h3: "5000 \<le> 5000 - lastRequestTime demo_page
        \<and> \<not> truthy (getLocalCachedData_tw 5000 (getCacheKey_tw demo_page) False (localStorage demo_page))
        \<and> \<not> truthy (getCachedData 5000 (getCacheKey_tw demo_page) demo_page)"
    by (simp add: eval_defs)
  have h4: "loadData_begin 10000 demo_page = Awaiting (demo_page\<lparr>requests := 1\<rparr>) 10000 ''log_analysis_1''
        \<and> loadData_try 10100 10000 ''log_analysis_1'' demo_response (demo_page\<lparr>requests := 1\<rparr>)
            = Inr demo_loaded
        \<and> 14999 - 10000 < (5000::int)"
    by (simp add: eval_defs)
  have h5: "loadData_tw_begin 10000 demo_page = Awaiting (demo_page\<lparr>requests := 1\<rparr>) 10000 ''log-types-1''
        \<and> loadData_tw_try 10100 10000 ''log-types-1'' demo_response (demo_page\<lparr>requests := 1\<rparr>)
            = Inr demo_loaded_tw
        \<and> 14999 - 10000 < (5000::int)"
    by (simp add: eval_defs)
  note c1 = rate_limiter [THEN conjunct1, rule_format, OF h1]
  note c2 = rate_limiter [THEN conjunct2, THEN conjunct1, rule_format, OF h2]
  note c3 = rate_limiter [THEN conjunct2, THEN conjunct2, THEN conjunct1, rule_format, OF h3]
  note c4 = rate_limiter [THEN conjunct2, THEN conjunct2, THEN conjunct2, THEN conjunct1, rule_format, OF h4]
  note c5 = rate_limiter [THEN conjunct2, THEN conjunct2, THEN conjunct2, THEN conjunct2, rule_format, OF h5]
  show ?thesis
    using h1 h2 h3 h4 h5 c1 c2 c3 c4 c5 by blast
qed

text \<open>
  Claim C6 as stated fails in its last part: the check of a load at 10000 passes, the
  request is answered with an error status, and the check of the next load, 1 ms
  later, passes again.
\<close>

theorem second_check_counterexample:
  "10001 - 10000 < (5000::int)
   \<and> loadData_begin 10000 demo_page = Awaiting (demo_page\<lparr>requests := 1\<rparr>) 10000 ''log_analysis_1''
   \<and> loadData_begin 10001 (loadData 10000 10000 (Response False (Unparsable [])) demo_page)
       = Awaiting ((loadData 10000 10000 (Response False (Unparsable [])) demo_page)\<lparr>requests := 2\<rparr>)
           10001 ''log_analysis_1''
   \<and> loadData_tw_begin 10001 (loadData_tw 10000 10000 (Response False (Unparsable [])) demo_page)
       = Awaiting ((loadData_tw 10000 10000 (Response False (Unparsable [])) demo_page)\<lparr>requests := 2\<rparr>)
           10001 ''log-types-1''"
  by (simp add: eval_defs)

section \<open>A failed request\<close>




section \<open>Normalisation and the empty state\<close>

lemma get_prop_truthy: "truthy v \<Longrightarrow> get_prop v k = Inr (field v k)"
  by (cases v) (simp_all add: field_def)

lemma fill_fields_truthy:
  "truthy raw \<Longrightarrow>
     fill_fields raw ds = Inr (map (\<lambda>(k, dflt). (k, js_or (field raw k) dflt)) ds)"
  by (induction ds) (auto simp: get_prop_truthy)

lemma ensure_fields_truthy:
  "truthy raw \<Longrightarrow>
     ensure_fields raw = Inr (JObj (map (\<lambda>(k, dflt). (k, js_or (field raw k) dflt)) field_defaults))"
  by (simp add: ensure_fields_def fill_fields_truthy)

lemma js_or_defined: "dflt \<noteq> JUndefined \<Longrightarrow> js_or v dflt \<noteq> JUndefined"
  by (cases v) (simp_all add: js_or_def)

lemma js_or_absent [simp]: "js_or JUndefined dflt = dflt"
  by (simp add: js_or_def)

lemma empty_errors_render:
  "get_prop d ''recent_errors'' = Inr (JArr []) \<Longrightarrow> truthy d \<Longrightarrow>
     renderRecentErrors True d = Inr Empty_notice \<and> renderRecentErrors_tw True d = Inr Empty_notice"
  by (simp add: renderRecentErrors_def renderRecentErrors_tw_def js_or_def)

lemma received_truthy:
  "received r = Inr raw \<Longrightarrow> truthy raw"
  "received_tw r = Inr raw \<Longrightarrow> truthy raw"
  by (cases r; auto simp: js_or_def split: if_splits body.splits)+

lemma loaded_data_is_normalized:
  "loadData_try t now key r s = Inr s2 \<Longrightarrow> \<exists>raw. received r = Inr raw \<and> ensure_fields raw = Inr (data s2)"
  "loadData_tw_try t now key r s = Inr s2 \<Longrightarrow> \<exists>raw. received_tw r = Inr raw \<and> ensure_fields raw = Inr (data s2)"
  by (auto simp: loadData_try_def loadData_tw_try_def on_ok_def setCachedData_def split: sum.splits)

text \<open>
  Claim C7. The response that reaches the normalisation is not falsy (the Bootstrap
  page has checked that it is an object, the Tailwind page has replaced a falsy one by
  \<^verbatim>\<open>{}\<close>). Normalisation then yields an object with exactly the ten fields, each of them the
  response's value or, where that is absent or falsy, the default (0 for the counts,
  \<^verbatim>\<open>{}\<close> for the mappings, \<^verbatim>\<open>[]\<close> for \<^verbatim>\<open>recent_errors\<close>), and never
  \<^verbatim>\<open>undefined\<close>. A response without \<^verbatim>\<open>recent_errors\<close> gets the empty array, and
  \<^verbatim>\<open>renderRecentErrors\<close> of either page then shows its empty-state notice and does
  not throw.
\<close>

theorem snapshot_fields_defaulted:
  "(received r = Inr raw \<or> received_tw r = Inr raw \<longrightarrow> truthy raw)
   \<and> (truthy raw \<longrightarrow>
        (\<exists>fs. ensure_fields raw = Inr (JObj fs)
           \<and> map fst fs = map fst field_defaults
           \<and> (\<forall>(k, dflt) \<in> set field_defaults.
                 \<exists>v. get_prop raw k = Inr v
                    \<and> get_prop (JObj fs) k = Inr (js_or v dflt)
                    \<and> js_or v dflt \<noteq> JUndefined
                    \<and> (v = JUndefined \<longrightarrow> get_prop (JObj fs) k = Inr dflt))
           \<and> (get_prop raw ''recent_errors'' = Inr JUndefined \<longrightarrow>
                 get_prop (JObj fs) ''recent_errors'' = Inr (JArr [])
               \<and> renderRecentErrors True (JObj fs) = Inr Empty_notice
               \<and> renderRecentErrors_tw True (JObj fs) = Inr Empty_notice)))"
proof (intro conjI impI)
  assume "received r = Inr raw \<or> received_tw r = Inr raw"
  then show "truthy raw" using received_truthy by blast
next
  assume t: "truthy raw"
  define fs where "fs = map (\<lambda>(k, dflt). (k, js_or (field raw k) dflt)) field_defaults"
  have n: "ensure_fields raw = Inr (JObj fs)"
    using t by (simp add: ensure_fields_truthy fs_def)
  have keys: "map fst fs = map fst field_defaults"
    by (simp add: fs_def field_defaults_def)
  have each: "\<forall>(k, dflt) \<in> set field_defaults.
                 \<exists>v. get_prop raw k = Inr v
                    \<and> get_prop (JObj fs) k = Inr (js_or v dflt)
                    \<and> js_or v dflt \<noteq> JUndefined
                    \<and> (v = JUndefined \<longrightarrow> get_prop (JObj fs) k = Inr dflt)"
    using t by (simp add: fs_def field_defaults_def get_prop_truthy js_or_defined)
  have re: "get_prop raw ''recent_errors'' = Inr JUndefined \<longrightarrow>
                 get_prop (JObj fs) ''recent_errors'' = Inr (JArr [])"
    using t by (simp add: fs_def field_defaults_def get_prop_truthy)
  then have "get_prop raw ''recent_errors'' = Inr JUndefined \<longrightarrow>
                 get_prop (JObj fs) ''recent_errors'' = Inr (JArr [])
               \<and> renderRecentErrors True (JObj fs) = Inr Empty_notice
               \<and> renderRecentErrors_tw True (JObj fs) = Inr Empty_notice"
    using empty_errors_render [of "JObj fs"] by simp
  with n keys each show "\<exists>fs. ensure_fields raw = Inr (JObj fs)
           \<and> map fst fs = map fst field_defaults
           \<and> (\<forall>(k, dflt) \<in> set field_defaults.
                 \<exists>v. get_prop raw k = Inr v
                    \<and> get_prop (JObj fs) k = Inr (js_or v dflt)
                    \<and> js_or v dflt \<noteq> JUndefined
                    \<and> (v = JUndefined \<longrightarrow> get_prop (JObj fs) k = Inr dflt))
           \<and> (get_prop raw ''recent_errors'' = Inr JUndefined \<longrightarrow>
                 get_prop (JObj fs) ''recent_errors'' = Inr (JArr [])
               \<and> renderRecentErrors True (JObj fs) = Inr Empty_notice
               \<and> renderRecentErrors_tw True (JObj fs) = Inr Empty_notice)" by blast
qed

theorem snapshot_fields_defaulted_witness:
  "received demo_response = Inr demo_snapshot
   \<and> truthy demo_snapshot
   \<and> get_prop demo_snapshot ''recent_errors'' = Inr JUndefined
   \<and> ensure_fields demo_snapshot = Inr demo_normalized
   \<and> get_prop demo_normalized ''total_logs'' = Inr (JNum 5)
   \<and> get_prop demo_normalized ''cleaned_logs_count'' = Inr (JNum 0)
   \<and> get_prop demo_normalized ''business_modules'' = Inr (JObj [])
   \<and> get_prop demo_normalized ''recent_errors'' = Inr (JArr [])
   \<and> renderRecentErrors True demo_normalized = Inr Empty_notice
   \<and> renderRecentErrors_tw True demo_normalized = Inr Empty_notice"
proof -
  have rc: "received demo_response = Inr demo_snapshot"
    by (simp add: demo_response_def demo_snapshot_def)
  then have t: "truthy demo_snapshot"
    using snapshot_fields_defaulted [of demo_response demo_snapshot] by blast
  have a: "get_prop demo_snapshot ''recent_errors'' = Inr JUndefined"
    by (simp add: demo_snapshot_def)
  have n: "ensure_fields demo_snapshot = Inr demo_normalized"
    by (simp add: ensure_fields_def field_defaults_def demo_snapshot_def demo_normalized_def js_or_def)
  from snapshot_fields_defaulted [of demo_response demo_snapshot] t obtain fs where
    fs: "ensure_fields demo_snapshot = Inr (JObj fs)"
    and r: "get_prop demo_snapshot ''recent_errors'' = Inr JUndefined \<longrightarrow>
              get_prop (JObj fs) ''recent_errors'' = Inr (JArr [])
            \<and> renderRecentErrors True (JObj fs) = Inr Empty_notice
            \<and> renderRecentErrors_tw True (JObj fs) = Inr Empty_notice"
    by blast
  from fs n have e: "JObj fs = demo_normalized" by simp
  have g: "get_prop demo_normalized ''total_logs'' = Inr (JNum 5)"
    "get_prop demo_normalized ''cleaned_logs_count'' = Inr (JNum 0)"
    "get_prop demo_normalized ''business_modules'' = Inr (JObj [])"
    by (simp_all add: demo_normalized_def)
  show ?thesis using rc t a n r e g by simp
qed

section \<open>Escaping\<close>

lemma replace_all_append:
  "replace_all c e (xs @ ys) = replace_all c e xs @ replace_all c e ys"
  by (simp add: replace_all_def)

lemma replace_all_Nil [simp]: "replace_all c e [] = []"
  by (simp add: replace_all_def)

lemma replace_all_Cons:
  "replace_all c e (x # xs) = (if x = c then e else [x]) @ replace_all c e xs"
  by (simp add: replace_all_def)

lemma five_passes_append: "five_passes (xs @ ys) = five_passes xs @ five_passes ys"
  by (simp add: five_passes_def replace_all_append)

lemma five_passes_single: "five_passes [x] = html_entity x"
proof -
  consider "x = CHR ''&''" | "x = CHR ''<''" | "x = CHR ''>''" | "x = CHR 0x22" | "x = CHR 0x27"
    | "x \<notin> {CHR ''&'', CHR ''<'', CHR ''>'', CHR 0x22, CHR 0x27}" by blast
  then show ?thesis
  proof cases
    case 6
    then show ?thesis by (simp add: five_passes_def replace_all_Cons html_entity_def)
  qed (simp_all add: five_passes_def replace_all_Cons html_entity_def)
qed

lemma five_passes_entities: "five_passes s = concat (map html_entity s)"
proof (induction s)
  case Nil
  show ?case by (simp add: five_passes_def)
next
  case (Cons x xs)
  have "five_passes (x # xs) = five_passes [x] @ five_passes xs"
    using five_passes_append [of "[x]" xs] by simp
  with Cons show ?case by (simp add: five_passes_single)
qed

lemma escaped_entity: "escaped rest \<Longrightarrow> escaped (html_entity c @ rest)"
  by (simp add: html_entity_def)

lemma escaped_entities: "escaped (concat (map html_entity s))"
  by (induction s) (simp_all add: escaped_entity)

lemma entity_chars:
  "set (html_entity c) \<inter> {CHR ''<'', CHR ''>'', CHR 0x22, CHR 0x27} = {}"
  by (simp add: html_entity_def)

lemma entities_chars:
  "set (concat (map html_entity s)) \<inter> {CHR ''<'', CHR ''>'', CHR 0x22, CHR 0x27} = {}"
  using entity_chars by (induction s) (simp_all add: Int_Un_distrib2)

text \<open>
  Claim C9. For a string, \<^verbatim>\<open>escapeHtml\<close> returns the text in which every character
  is replaced by its entity (the ampersand, the angle brackets and the two quotes) or
  kept; the result has no angle bracket and no quote, and each of its ampersands opens
  one of the five entities. For \<^verbatim>\<open>null\<close> and \<^verbatim>\<open>undefined\<close> it returns the empty
  string.
\<close>

theorem escapeHtml_escapes:
  "escapeHtml (JStr s) = concat (map html_entity s)
   \<and> escaped (escapeHtml (JStr s))
   \<and> CHR ''<'' \<notin> set (escapeHtml (JStr s))
   \<and> CHR ''>'' \<notin> set (escapeHtml (JStr s))
   \<and> CHR 0x22 \<notin> set (escapeHtml (JStr s))
   \<and> CHR 0x27 \<notin> set (escapeHtml (JStr s))
   \<and> escapeHtml JNull = []
   \<and> escapeHtml JUndefined = []"
proof -
  have e: "escapeHtml (JStr s) = concat (map html_entity s)"
    using five_passes_entities [of s] by (simp add: escapeHtml_def)
  have n: "escapeHtml JNull = []" "escapeHtml JUndefined = []"
    by (simp_all add: escapeHtml_def)
  from entities_chars [of s] e have
    "set (escapeHtml (JStr s)) \<inter> {CHR ''<'', CHR ''>'', CHR 0x22, CHR 0x27} = {}"
    by simp
  then have c: "CHR ''<'' \<notin> set (escapeHtml (JStr s))" "CHR ''>'' \<notin> set (escapeHtml (JStr s))"
    "CHR 0x22 \<notin> set (escapeHtml (JStr s))" "CHR 0x27 \<notin> set (escapeHtml (JStr s))"
    by blast+
  from e escaped_entities [of s] have "escaped (escapeHtml (JStr s))" by simp
  with e n c show ?thesis by blast
qed

theorem escapeHtml_escapes_witness:
  "escapeHtml (JStr [CHR ''<'', CHR ''b'', CHR ''>'', CHR 0x22, CHR 0x27, CHR ''&'', CHR ''a''])
     = ''&lt;b&gt;&quot;&#39;&amp;a''
   \<and> escaped ''&lt;b&gt;&quot;&#39;&amp;a''
   \<and> escapeHtml JNull = []"
  using escapeHtml_escapes [of "[CHR ''<'', CHR ''b'', CHR ''>'', CHR 0x22, CHR 0x27, CHR ''&'', CHR ''a'']"]
  by (simp add: html_entity_def)

section \<open>The percentage\<close>





end
